theory Spec2Isabelle
  imports Complex_Main "HOL-Library.Sublist"
begin

section \<open>Conventions of the embedding\<close>

text \<open>
  The two modules \<^verbatim>\<open>pyrap/rte.py\<close> and \<^verbatim>\<open>pyrtlib/absmodel.py\<close> are embedded as
  HOL functions. Floating-point numbers are read as real numbers, so every
  comparison and arithmetic step is the exact one; a \<^verbatim>\<open>numpy\<close> array and a Python
  list are both a HOL list indexed from 0. Everything that raises in Python is a
  value \<open>Inl e\<close> of the result type, a normal return is \<open>Inr v\<close>. A division by
  zero between Python floats raises and is modelled so (\<open>float_div\<close> below); one with
  a \<^verbatim>\<open>numpy\<close> value among its operands, which \<^verbatim>\<open>numpy\<close> answers with a warning and an
  infinity or a NaN, is HOL's total division: at such an input a theorem speaks of the
  real-number reading only.
\<close>

datatype py_error =
    IndexError
  | NameError
  | UnboundLocalError
  | TypeError
  | ValueError
  | ZeroDivisionError

text \<open>The \<^verbatim>\<open>warnings.warn\<close> calls of \<^verbatim>\<open>rte.py\<close>, one constructor per message.\<close>

datatype warning =
    NegativeRefractiveIndex
  | Ducting real
  | ExpIntError

text \<open>Sequencing of statements that may raise.\<close>

definition and_then :: "py_error + 'a \<Rightarrow> ('a \<Rightarrow> py_error + 'b) \<Rightarrow> py_error + 'b" where
  "and_then m f = (case m of Inl e \<Rightarrow> Inl e | Inr v \<Rightarrow> f v)"

text \<open>
  A division \<^verbatim>\<open>a / b\<close> whose operands are both Python floats raises
  \<^verbatim>\<open>ZeroDivisionError\<close> when the divisor is zero.
\<close>

definition float_div :: "real \<Rightarrow> real \<Rightarrow> py_error + real" where
  "float_div a b = (if b = 0 then Inl ZeroDivisionError else Inr (a / b))"

text \<open>
  \<^verbatim>\<open>xs[i]\<close> as an expression: an index below zero counts from the end, an index
  outside the sequence raises \<^verbatim>\<open>IndexError\<close>.
\<close>

definition subscript :: "'a list \<Rightarrow> int \<Rightarrow> py_error + 'a" where
  "subscript xs i =
     (if 0 \<le> i \<and> i < int (length xs) then Inr (xs ! nat i)
      else if i < 0 \<and> - int (length xs) \<le> i then Inr (xs ! nat (int (length xs) + i))
      else Inl IndexError)"

text \<open>
  \<^verbatim>\<open>xs[i] = v\<close> as a statement, on a list and on an array alike: the sequence never
  grows, an index outside it raises \<^verbatim>\<open>IndexError\<close>.
\<close>

definition assign :: "'a list \<Rightarrow> int \<Rightarrow> 'a \<Rightarrow> py_error + 'a list" where
  "assign xs i v =
     (if 0 \<le> i \<and> i < int (length xs) then Inr (xs[nat i := v])
      else if i < 0 \<and> - int (length xs) \<le> i then Inr (xs[nat (int (length xs) + i) := v])
      else Inl IndexError)"

text \<open>\<^verbatim>\<open>np.zeros(a.shape)\<close> for a one-dimensional array \<open>a\<close>.\<close>

definition zeros_like :: "real list \<Rightarrow> real list" where
  "zeros_like a = replicate (length a) 0"

text \<open>
  Modelled from the spec: \<^verbatim>\<open>utils.arange\<close> is imported by \<^verbatim>\<open>rte.py\<close> but is not among
  the sources. The spec counts levels from 1 and integrates over the closed index
  range from \<open>ibeg + 1\<close> to \<open>iend\<close>, so \<^verbatim>\<open>arange(a, b).reshape(-1)\<close> is the
  sequence \<open>a, a + 1, ..., b\<close> with both ends included.
\<close>

definition arange :: "int \<Rightarrow> int \<Rightarrow> int list" where
  "arange a b = [a..b]"

text \<open>
  Modelled from the spec: \<^verbatim>\<open>utils.tk2b_mod\<close> is imported by \<^verbatim>\<open>rte.py\<close> but is not
  among the sources. It is the forward modified Planck radiance, the Planck function
  without its constant factor: \<open>b(T) = 1 / (exp (hvk / T) - 1)\<close>.
\<close>

definition tk2b_mod :: "real \<Rightarrow> real \<Rightarrow> real" where
  "tk2b_mod hvk T = 1 / (exp (hvk / T) - 1)"

text \<open>
  The values \<^verbatim>\<open>utils.constants\<close> returns are not among the sources; the functions that
  look one up take the table as a parameter.
\<close>

record constants =
  EarthRadius :: real
  Tcosmicbkg :: real
  planck :: real
  boltzmann :: real

section \<open>\<^verbatim>\<open>RTEquation.bright_xxx\<close>\<close>

definition bright_xxx :: "real \<Rightarrow> real \<Rightarrow> real" where
  "bright_xxx hvk boft = hvk / ln (1 + 1 / boft)"

section \<open>\<^verbatim>\<open>RTEquation.exp_int_xxx\<close>\<close>

text \<open>
  The \<^verbatim>\<open>elif\<close> chain that picks the layer value once both endpoints are known to be
  non-negative. Its last branch is written \<^verbatim>\<open>x(i)\<close> and \<^verbatim>\<open>x(i - 1)\<close>: a call of the
  array, which raises \<^verbatim>\<open>TypeError\<close> before anything is divided.
\<close>

definition xlayer_of :: "int \<Rightarrow> real \<Rightarrow> real \<Rightarrow> py_error + real" where
  "xlayer_of zeroflg x_prev x_i =
     (if \<bar>x_i - x_prev\<bar> < 1 / 10 ^ 9 then Inr x_i
      else if x_prev = 0 \<or> x_i = 0 then
        (if zeroflg = 0 then Inr 0 else Inr ((x_i + x_prev) * 0.5))
      else Inl TypeError)"

text \<open>How one pass through the loop body ends.\<close>

datatype exp_int_step =
    Abort
  | Next real "real list"

definition exp_int_body ::
  "int \<Rightarrow> real list \<Rightarrow> real list \<Rightarrow> int \<Rightarrow> real \<Rightarrow> real list \<Rightarrow> py_error + exp_int_step" where
  "exp_int_body zeroflg x ds i sxds xds =
     and_then (subscript x (i - 1)) (\<lambda>x_prev.
     and_then (subscript x i) (\<lambda>x_i.
       if x_prev < 0 \<or> x_i < 0 then Inr Abort
       else
         and_then (xlayer_of zeroflg x_prev x_i) (\<lambda>xlayer.
         and_then (subscript ds i) (\<lambda>ds_i.
         and_then (assign xds i (xlayer * ds_i)) (\<lambda>xds'.
         and_then (subscript xds' i) (\<lambda>xds_i.
           Inr (Next (sxds + xds_i) xds')))))))"

text \<open>
  The \<^verbatim>\<open>for\<close> loop over the layers. The early \<^verbatim>\<open>return sxds, xds\<close> leaves with the
  warning and the sum as it stands; the normal exit multiplies the sum by \<open>factor\<close>.
\<close>

fun exp_int_loop ::
  "int \<Rightarrow> real list \<Rightarrow> real list \<Rightarrow> real \<Rightarrow> int list \<Rightarrow> real \<Rightarrow> real list
     \<Rightarrow> py_error + (warning list \<times> real \<times> real list)" where
  "exp_int_loop zeroflg x ds factor [] sxds xds = Inr ([], sxds * factor, xds)"
| "exp_int_loop zeroflg x ds factor (i # rest) sxds xds =
     (case exp_int_body zeroflg x ds i sxds xds of
        Inl e \<Rightarrow> Inl e
      | Inr Abort \<Rightarrow> Inr ([ExpIntError], sxds, xds)
      | Inr (Next sxds' xds') \<Rightarrow> exp_int_loop zeroflg x ds factor rest sxds' xds')"

definition exp_int_xxx ::
  "int \<Rightarrow> real list \<Rightarrow> real list \<Rightarrow> int \<Rightarrow> int \<Rightarrow> real
     \<Rightarrow> py_error + (warning list \<times> real \<times> real list)" where
  "exp_int_xxx zeroflg x ds ibeg iend factor =
     exp_int_loop zeroflg x ds factor (arange (ibeg + 1) iend) 0 (zeros_like ds)"

section \<open>\<^verbatim>\<open>RTEquation.planck_xxx\<close>\<close>

text \<open>
  \<^verbatim>\<open>planck_xxx\<close> allocates \<^verbatim>\<open>tauprof\<close> and \<^verbatim>\<open>boftatm\<close> with \<^verbatim>\<open>np.zeros\<close>, but never
  binds \<^verbatim>\<open>boft\<close>: the statement \<^verbatim>\<open>boft[1] = ...\<close> stores into an object the name must
  already denote. The name is neither a local nor a global of the module, so looking
  it up raises \<^verbatim>\<open>NameError\<close>.
\<close>

definition unbound_name :: "py_error + 'a" where
  "unbound_name = Inl NameError"

text \<open>One pass through the loop over the levels \<open>2, ..., nl\<close>.\<close>

definition planck_body ::
  "real \<Rightarrow> real list \<Rightarrow> real list \<Rightarrow> int \<Rightarrow> real list \<times> real list \<times> real list
     \<Rightarrow> py_error + (real list \<times> real list \<times> real list)" where
  "planck_body hvk tk taulay i st =
     (case st of (boft, boftatm, tauprof) \<Rightarrow>
       and_then (subscript tk i) (\<lambda>tk_i.
       and_then (assign boft i (tk2b_mod hvk tk_i)) (\<lambda>boft'.
       and_then (subscript boft' (i - 1)) (\<lambda>boft_prev.
       and_then (subscript boft' i) (\<lambda>boft_i.
       and_then (subscript taulay i) (\<lambda>taulay_i.
       and_then (subscript tauprof (i - 1)) (\<lambda>tauprof_prev.
       and_then (subscript boftatm (i - 1)) (\<lambda>boftatm_prev.
         let boftlay = (boft_prev + boft_i * exp (- taulay_i)) / (1 + exp (- taulay_i));
             batmlay = boftlay * exp (- tauprof_prev) * (1 - exp (- taulay_i))
         in
           and_then (assign boftatm i (boftatm_prev + batmlay)) (\<lambda>boftatm'.
           and_then (assign tauprof i (tauprof_prev + taulay_i)) (\<lambda>tauprof'.
             Inr (boft', boftatm', tauprof')))))))))))"

fun planck_loop ::
  "real \<Rightarrow> real list \<Rightarrow> real list \<Rightarrow> int list \<Rightarrow> real list \<times> real list \<times> real list
     \<Rightarrow> py_error + (real list \<times> real list \<times> real list)" where
  "planck_loop hvk tk taulay [] st = Inr st"
| "planck_loop hvk tk taulay (i # rest) st =
     and_then (planck_body hvk tk taulay i st) (planck_loop hvk tk taulay rest)"

text \<open>
  The closing \<^verbatim>\<open>if tauprof[nl] < expmax\<close> with \<open>expmax = 125\<close>, from the two values read
  at index \<open>nl\<close>: the triple \<open>(bakgrnd, boftotl, boftmr)\<close>.
\<close>

definition planck_tail :: "real \<Rightarrow> real \<Rightarrow> real \<Rightarrow> real \<Rightarrow> real \<times> real \<times> real" where
  "planck_tail hvk Tc tauprof_nl boftatm_nl =
     (if tauprof_nl < 125 then
        (let boftbg = tk2b_mod hvk Tc;
             bakgrnd = boftbg * exp (- tauprof_nl)
         in (bakgrnd, bakgrnd + boftatm_nl, boftatm_nl / (1 - exp (- tauprof_nl))))
      else (0, boftatm_nl, boftatm_nl))"

text \<open>The result is the tuple \<open>(boftotl, boftatm, boftmr, tauprof, hvk, boft, bakgrnd)\<close>.\<close>

definition planck_xxx ::
  "constants \<Rightarrow> real \<Rightarrow> real list \<Rightarrow> real list
     \<Rightarrow> py_error + (real \<times> real list \<times> real \<times> real list \<times> real \<times> real list \<times> real)" where
  "planck_xxx c frq tk taulay =
     (let Tc = Tcosmicbkg c;
          fHz = frq * 1000000000;
          hvk = fHz * planck c / boltzmann c;
          nl = int (length tk);
          tauprof = zeros_like taulay;
          boftatm = zeros_like taulay
      in
        and_then (subscript tk 1) (\<lambda>tk_1.
        and_then unbound_name (\<lambda>boft.
        and_then (assign boft 1 (tk2b_mod hvk tk_1)) (\<lambda>boft'.
        and_then (planck_loop hvk tk taulay (arange 2 nl) (boft', boftatm, tauprof)) (\<lambda>st.
          case st of (boft'', boftatm', tauprof') \<Rightarrow>
            and_then (subscript tauprof' nl) (\<lambda>tauprof_nl.
            and_then (subscript boftatm' nl) (\<lambda>boftatm_nl.
              case planck_tail hvk Tc tauprof_nl boftatm_nl of
                (bakgrnd, boftotl, boftmr) \<Rightarrow>
                  Inr (boftotl, boftatm', boftmr, tauprof', hvk, boft'', bakgrnd))))))))"

section \<open>\<^verbatim>\<open>RTEquation.refract_xxx\<close>\<close>

text \<open>
  One pass through the loop over the levels \<open>1, ..., nl\<close>. The three outputs start as
  the empty Python lists \<^verbatim>\<open>wetn = []\<close>, \<^verbatim>\<open>dryn = []\<close> and \<^verbatim>\<open>refindx = []\<close>, and the
  body stores into them by index.
\<close>

definition refract_body ::
  "real list \<Rightarrow> real list \<Rightarrow> real list \<Rightarrow> int \<Rightarrow> real list \<times> real list \<times> real list
     \<Rightarrow> py_error + (real list \<times> real list \<times> real list)" where
  "refract_body p tk e i st =
     (case st of (wetn, dryn, refindx) \<Rightarrow>
       and_then (subscript p i) (\<lambda>p_i.
       and_then (subscript e i) (\<lambda>e_i.
       and_then (subscript tk i) (\<lambda>tk_i.
         let pa = p_i - e_i;
             tc = tk_i - 273.16;
             tk2 = tk_i * tk_i;
             tc2 = tc * tc;
             rza = 1 + pa * (5.79 / 10 ^ 7 * (1 + 0.52 / tk_i) - 0.00094611 * tc / tk2);
             rzw = 1 + 1650 * (e_i / (tk_i * tk2))
                       * (1 - 0.01317 * tc + 0.000175 * tc2 + 1.44 / 10 ^ 6 * (tc2 * tc))
         in
           and_then (assign wetn i ((64.79 * (e_i / tk_i) + 377600 * (e_i / tk2)) * rzw)) (\<lambda>wetn'.
           and_then (assign dryn i (77.6036 * (pa / tk_i) * rza)) (\<lambda>dryn'.
           and_then (subscript dryn' i) (\<lambda>dryn_i.
           and_then (subscript wetn' i) (\<lambda>wetn_i.
           and_then (assign refindx i (1 + (dryn_i + wetn_i) * (1 / 10 ^ 6))) (\<lambda>refindx'.
             Inr (wetn', dryn', refindx'))))))))))"

fun refract_loop ::
  "real list \<Rightarrow> real list \<Rightarrow> real list \<Rightarrow> int list \<Rightarrow> real list \<times> real list \<times> real list
     \<Rightarrow> py_error + (real list \<times> real list \<times> real list)" where
  "refract_loop p tk e [] st = Inr st"
| "refract_loop p tk e (i # rest) st =
     and_then (refract_body p tk e i st) (refract_loop p tk e rest)"

text \<open>
  After the loop the source rebinds \<^verbatim>\<open>wetn = np.asarray(dryn)\<close> and then
  \<^verbatim>\<open>dryn = np.asarray(wetn)\<close>, and returns \<^verbatim>\<open>dryn, wetn, refindx\<close>.
\<close>

definition refract_xxx ::
  "real list \<Rightarrow> real list \<Rightarrow> real list \<Rightarrow> py_error + (real list \<times> real list \<times> real list)" where
  "refract_xxx p tk e =
     and_then (refract_loop p tk e (arange 1 (int (length p))) ([], [], [])) (\<lambda>st.
       case st of (wetn, dryn, refindx) \<Rightarrow>
         (let wetn' = dryn;
              dryn' = wetn'
          in Inr (dryn', wetn', refindx)))"

section \<open>\<^verbatim>\<open>RTEquation.ray_trac_xxx\<close>\<close>

text \<open>
  \<^verbatim>\<open>np.logical_and\<close> and \<^verbatim>\<open>np.logical_or\<close> on two numbers give a truth value, and a
  truth value compared with a number counts as 1 or 0.
\<close>

definition as_number :: "bool \<Rightarrow> real" where
  "as_number t = (if t then 1 else 0)"

definition logical_and :: "real \<Rightarrow> real \<Rightarrow> real" where
  "logical_and a b = as_number (a \<noteq> 0 \<and> b \<noteq> 0)"

definition logical_or :: "real \<Rightarrow> real \<Rightarrow> real" where
  "logical_or a b = as_number (a \<noteq> 0 \<or> b \<noteq> 0)"

text \<open>
  The test \<^verbatim>\<open>(angle >= np.logical_and(89, angle) <= 91)\<close> or
  \<^verbatim>\<open>(angle >= np.logical_and(-91, angle) <= -89)\<close>: each side is a chained comparison
  \<open>a \<ge> m \<le> b\<close>, that is \<open>a \<ge> m\<close> and \<open>m \<le> b\<close>.
\<close>

definition near_vertical :: "real \<Rightarrow> bool" where
  "near_vertical angle =
     ((angle \<ge> logical_and 89 angle \<and> logical_and 89 angle \<le> 91)
      \<or> (angle \<ge> logical_and (- 91) angle \<and> logical_and (- 91) angle \<le> - 89))"

text \<open>
  The first loop looks for a refractive index below 1 at the levels \<open>1, ..., nl\<close>;
  \<open>True\<close> stands for the warning and the bare \<^verbatim>\<open>return\<close>.
\<close>

fun refindx_scan :: "real list \<Rightarrow> int list \<Rightarrow> py_error + bool" where
  "refindx_scan refindx [] = Inr False"
| "refindx_scan refindx (i # rest) =
     and_then (subscript refindx i) (\<lambda>n_i.
       if n_i < 1 then Inr True else refindx_scan refindx rest)"

text \<open>The height-difference loop of the branch for angles close to 90 degrees.\<close>

fun height_diff_loop :: "real list \<Rightarrow> int list \<Rightarrow> real list \<Rightarrow> py_error + real list" where
  "height_diff_loop z [] ds = Inr ds"
| "height_diff_loop z (i # rest) ds =
     and_then (subscript z i) (\<lambda>z_i.
     and_then (subscript z (i - 1)) (\<lambda>z_prev.
     and_then (assign ds i (z_i - z_prev)) (height_diff_loop z rest)))"

text \<open>
  The body of the ray-tracing loop at level \<open>i\<close>. It leaves the function on each of
  its paths: the ducting \<^verbatim>\<open>return ds\<close>, the call \<^verbatim>\<open>z(i)\<close> of the height array in the
  small-bend branch (a \<^verbatim>\<open>TypeError\<close>), and the \<^verbatim>\<open>return np.asarray(ds)\<close> that is
  indented into the loop.
\<close>

definition ray_layer ::
  "real \<Rightarrow> real list \<Rightarrow> real list \<Rightarrow> real \<Rightarrow> real \<Rightarrow> real \<Rightarrow> real \<Rightarrow> real \<Rightarrow> real \<Rightarrow> real
     \<Rightarrow> real \<Rightarrow> real \<Rightarrow> real \<Rightarrow> real \<Rightarrow> real list \<Rightarrow> int
     \<Rightarrow> py_error + (warning list \<times> real list option)" where
  "ray_layer re z refindx angle z0 theta0 rs costh0 sina a0 phil taul rl tanthl ds i =
     and_then (subscript z i) (\<lambda>z_i.
     and_then (subscript refindx i) (\<lambda>n_i.
     and_then (subscript refindx (i - 1)) (\<lambda>n_prev.
     and_then (subscript refindx 1) (\<lambda>n_1.
       let r = re + z_i + z0;
           refbar =
             (if n_i = logical_or n_prev n_i
                 \<and> logical_or n_prev n_i = logical_or 1 n_prev
                 \<and> logical_or 1 n_prev = 1
              then (n_i + n_prev) * 0.5
              else 1 + (n_prev - n_i) / ln ((n_prev - 1) / (n_i - 1)));
           argdth = z_i / rs - (n_1 - n_i) * costh0 / n_i;
           argth = 0.5 * (a0 + argdth) / r
       in
         if argth \<le> 0 then Inr ([Ducting angle], Some ds)
         else
           (let sint = sqrt (r * argth);
                theta = 2 * arcsin sint
            in
              if theta - 2 * theta0 \<le> 0 then Inl TypeError
              else
                (let dtheta = theta - theta0;
                     tanth = tan theta;
                     cthbar = (1 / tanth + 1 / tanthl) * 0.5;
                     dtau = cthbar * (n_prev - n_i) / refbar;
                     tau = taul + dtau;
                     phi = dtheta + tau
                 in
                   and_then (subscript z (i - 1)) (\<lambda>z_prev.
                   and_then (assign ds i
                       (sqrt ((z_i - z_prev) ^ 2 + 4 * r * rl * (sin ((phi - phil) * 0.5)) ^ 2)))
                     (\<lambda>ds'.
                   and_then
                     (if dtau \<noteq> 0 then
                        and_then (subscript ds' i) (\<lambda>ds_i.
                          assign ds' i (ds_i * (\<bar>tau - taul\<bar> / (2 * sin (\<bar>tau - taul\<bar> * 0.5)))))
                      else Inr ds')
                     (\<lambda>ds''. Inr ([], Some ds''))))))))))"

text \<open>
  The whole function. \<^verbatim>\<open>ds\<close> starts as the empty Python list. The branch for angles
  close to 90 degrees has no \<^verbatim>\<open>return\<close>, so control goes on into the general part.
  When the ray-tracing loop has no level to visit, the function ends without a
  \<^verbatim>\<open>return\<close> and the caller gets \<^verbatim>\<open>None\<close>.
\<close>

definition ray_trac_xxx ::
  "constants \<Rightarrow> real list \<Rightarrow> real list \<Rightarrow> real \<Rightarrow> real
     \<Rightarrow> py_error + (warning list \<times> real list option)" where
  "ray_trac_xxx c z refindx angle z0 =
     (let deg2rad = pi / 180;
          re = EarthRadius c;
          ds = [];
          nl = int (length z)
      in
        and_then (refindx_scan refindx (arange 1 nl)) (\<lambda>below_one.
          if below_one then Inr ([NegativeRefractiveIndex], None)
          else
            and_then
              (if near_vertical angle then
                 and_then (assign ds 1 0) (height_diff_loop z (arange 2 nl))
               else Inr ds)
              (\<lambda>ds'.
            and_then (subscript z 1) (\<lambda>z_1.
              let theta0 = angle * deg2rad;
                  rs = re + z_1 + z0;
                  costh0 = cos theta0;
                  sina = sin (theta0 * 0.5);
                  a0 = 2 * sina ^ 2
              in
                and_then (assign ds' 1 0) (\<lambda>ds''.
                  let phil = 0;
                      taul = 0;
                      rl = re + z_1 + z0;
                      tanthl = tan theta0
                  in
                    case arange 2 nl of
                      [] \<Rightarrow> Inr ([], None)
                    | i # rest \<Rightarrow>
                        ray_layer re z refindx angle z0 theta0 rs costh0 sina a0
                          phil taul rl tanthl ds'' i)))))"

section \<open>\<^verbatim>\<open>absmodel.py\<close>: the model selector and the line tables\<close>

text \<open>
  Every absorption routine reads the class attribute \<^verbatim>\<open>model\<close>, one string shared by
  all of them; the embedding passes it as the first argument. The line tables
  \<^verbatim>\<open>o2ll\<close> and \<^verbatim>\<open>h2oll\<close> are loaded from outside the sources: a table is a
  parameter here. Its per-line coefficient sequences are read in lock-step at one
  line index, so the embedding keeps them as one sequence of per-line records, in the
  order of the line index. In a power \<^verbatim>\<open>a ** b\<close> an exponent written as a whole number
  is the power \<open>a ^ b\<close>, any other exponent is \<open>a powr b\<close>.
\<close>

record o2_line =
  o2_f :: real
  o2_s300 :: real
  o2_be :: real
  o2_w300 :: real
  o2_y300 :: real
  o2_v :: real
  o2_y0 :: real
  o2_y1 :: real
  o2_dnu0 :: real
  o2_dnu1 :: real
  o2_g0 :: real
  o2_g1 :: real

record o2ll =
  o2_x :: real
  o2_wb300 :: real
  o2_lines :: "o2_line list"

record h2o_line =
  h_fl :: real
  h_s1 :: real
  h_b2 :: real
  h_w0 :: real
  h_x :: real
  h_w0s :: real
  h_xs :: real
  h_w2 :: real
  h_w2s :: real
  h_sh :: real
  h_aair :: real
  h_xh :: real
  h_shs :: real
  h_aself :: real
  h_xhs :: real
  h_sr :: real

record h2oll =
  h_reftcon :: real
  h_cf :: real
  h_xcf :: real
  h_cs :: real
  h_xcs :: real
  h_reftline :: real
  h_d2air :: real
  h_d2self :: real
  h_lines :: "h2o_line list"

section \<open>\<^verbatim>\<open>N2AbsModel.n2_absorption\<close>\<close>

definition n2_absorption :: "string \<Rightarrow> real \<Rightarrow> real \<Rightarrow> real \<Rightarrow> py_error + real" where
  "n2_absorption model t p f =
     (let th = 300 / t;
          fdepen = 0.5 + 0.5 / (1 + (f / 450) ^ 2)
      in
        and_then
          (if model \<in> set [''rose16'', ''rose17'', ''rose18'', ''rose19'', ''rose19sd''] then
             Inr (6.5 / 10 ^ 14, 3.6, 1.34, fdepen)
           else if model \<in> set [''rose20'', ''rose20sd''] then
             Inr (9.95 / 10 ^ 14, 3.22, 1, fdepen)
           else if model = ''rose03'' then
             Inr (6.5 / 10 ^ 14, 3.6, 1.29, fdepen)
           else if model \<in> set [''rose98''] then
             Inr (6.4 / 10 ^ 14, 3.55, 1, 1)
           else Inl ValueError)
          (\<lambda>(l, m, n, fdepen').
             let bf = l * fdepen' * p * p * f * f * th powr m
             in Inr (n * bf)))"

section \<open>\<^verbatim>\<open>O2AbsModel.o2abs_rosen19\<close>\<close>

text \<open>The variables the function has bound when it reaches the line loops.\<close>

record o2_vars =
  temp_of :: real
  pres_of :: real
  th_of :: real
  th1_of :: real
  b_of :: real
  presda_of :: real
  den_of :: real
  dens_of :: "real option"
  dfnr_of :: real
  pe2_of :: real

text \<open>
  The set-up, from the first statement to \<^verbatim>\<open>pe2 = den * den\<close>. The four arguments are
  declared as Python floats, so the three divisions whose operands are arguments and
  literals only (\<^verbatim>\<open>300.0 / vx\<close>, the vapour density and \<^verbatim>\<open>300.0 / temp\<close>) raise at a
  zero divisor. A table entry is taken as a \<^verbatim>\<open>numpy\<close> value, as the values of
  \<^verbatim>\<open>np.log\<close>, \<^verbatim>\<open>np.exp\<close> and \<^verbatim>\<open>np.maximum\<close> are: a division with one of them among its
  operands does not raise. \<^verbatim>\<open>dens\<close> is bound for the models \<^verbatim>\<open>rose03\<close> and
  \<^verbatim>\<open>rose98\<close> only, \<open>None\<close> stands for the unbound local.
\<close>

definition o2_setup :: "string \<Rightarrow> o2ll \<Rightarrow> real \<Rightarrow> real \<Rightarrow> real \<Rightarrow> py_error + o2_vars" where
  "o2_setup model ll pdrykpa vx ekpa =
     (let rvap = 0.01 * 8.314510 / 18.01528 in
        and_then (float_div 300 vx) (\<lambda>temp.
          let pres = (pdrykpa + ekpa) * 10 in
            and_then (float_div (ekpa * 10) (rvap * temp)) (\<lambda>vapden.
            and_then (float_div 300 temp) (\<lambda>th.
              let th1 = th - 1;
                  b = th powr o2_x ll;
                  preswv =
                    (if model \<in> set [''rose03'', ''rose16'', ''rose17'', ''rose18'', ''rose98'']
                     then vapden * temp / 217
                     else vapden * temp / 216.68);
                  presda = pres - preswv;
                  den = (if model \<in> set [''rose03'', ''rose16'', ''rose98'']
                         then 0.001 * (presda * b + 1.1 * preswv * th)
                         else 0.001 * (presda * b + 1.2 * preswv * th));
                  dens03 = (if model = ''rose03''
                            then Some (0.001 * (presda * th powr 0.9 + 1.1 * preswv * th))
                            else None);
                  dens = (if model = ''rose98''
                          then Some (0.001 * (presda + 1.1 * preswv) * th)
                          else dens03)
              in Inr \<lparr>temp_of = temp, pres_of = pres, th_of = th, th1_of = th1, b_of = b,
                      presda_of = presda, den_of = den, dens_of = dens,
                      dfnr_of = o2_wb300 ll * den, pe2_of = den * den\<rparr>))))"

text \<open>
  A loop \<^verbatim>\<open>for k in range(0, nlines)\<close> that adds one term per line to \<^verbatim>\<open>summ\<close>;
  \<open>term k l\<close> is the term of the line \<open>l\<close> at the line index \<open>k\<close>.
\<close>

fun line_loop :: "(nat \<Rightarrow> 'l \<Rightarrow> real) \<Rightarrow> nat \<Rightarrow> 'l list \<Rightarrow> real \<Rightarrow> real" where
  "line_loop term k [] summ = summ"
| "line_loop term k (l # ls) summ = line_loop term (Suc k) ls (summ + term k l)"

text \<open>
  The terms of the three line loops. The first is the loop of \<^verbatim>\<open>rose03\<close> and
  \<^verbatim>\<open>rose98\<close>, where the line of index 0 takes its width from \<^verbatim>\<open>dens\<close>; the second is
  the loop of \<^verbatim>\<open>rose17\<close> and \<^verbatim>\<open>rose18\<close>; the third is the \<^verbatim>\<open>else\<close> branch, taken by
  every other model string.
\<close>

definition o2_term_legacy :: "o2_vars \<Rightarrow> real \<Rightarrow> real \<Rightarrow> nat \<Rightarrow> o2_line \<Rightarrow> real" where
  "o2_term_legacy v dens freq k l =
     (let df = (if k = 0 then o2_w300 l * dens else o2_w300 l * den_of v);
          y = 0.001 * pres_of v * b_of v * (o2_y300 l + o2_v l * th1_of v);
          strr = o2_s300 l * exp (- o2_be l * th1_of v);
          sf1 = (df + (freq - o2_f l) * y) / ((freq - o2_f l) ^ 2 + df * df);
          sf2 = (df - (freq + o2_f l) * y) / ((freq + o2_f l) ^ 2 + df * df)
      in strr * (sf1 + sf2) * (freq / o2_f l) ^ 2)"

definition o2_term_first_order :: "o2_vars \<Rightarrow> real \<Rightarrow> nat \<Rightarrow> o2_line \<Rightarrow> real" where
  "o2_term_first_order v freq k l =
     (let df = o2_w300 l * den_of v;
          fcen = o2_f l;
          y = den_of v * (o2_y300 l + o2_v l * th1_of v);
          strr = o2_s300 l * exp (- o2_be l * th1_of v);
          sf1 = (df + (freq - fcen) * y) / ((freq - o2_f l) ^ 2 + df * df);
          sf2 = (df - (freq + fcen) * y) / ((freq + o2_f l) ^ 2 + df * df)
      in strr * (sf1 + sf2) * (freq / o2_f l) ^ 2)"

definition o2_term_second_order :: "o2_vars \<Rightarrow> real \<Rightarrow> nat \<Rightarrow> o2_line \<Rightarrow> real" where
  "o2_term_second_order v freq k l =
     (let df = o2_w300 l * den_of v;
          y = den_of v * (o2_y0 l + o2_y1 l * th1_of v);
          dnu = pe2_of v * (o2_dnu0 l + o2_dnu1 l * th1_of v);
          strr = o2_s300 l * exp (- o2_be l * th1_of v);
          del1 = freq - o2_f l - dnu;
          del2 = freq + o2_f l + dnu;
          gfac = 1 + pe2_of v * (o2_g0 l + o2_g1 l * th1_of v);
          d1 = del1 * del1 + df * df;
          d2 = del2 * del2 + df * df;
          sf1 = (df * gfac + del1 * y) / d1;
          sf2 = (df * gfac - del2 * y) / d2
      in strr * (sf1 + sf2) * (freq / o2_f l) ^ 2)"

text \<open>\<^verbatim>\<open>summ\<close> after the loops (lines 588 to 625 of the source).\<close>

definition o2_summ :: "string \<Rightarrow> o2ll \<Rightarrow> o2_vars \<Rightarrow> real \<Rightarrow> py_error + real" where
  "o2_summ model ll v freq =
     (let summ0 = (if model \<in> set [''rose03'', ''rose16'', ''rose17'', ''rose18'', ''rose98'']
                   then 0
                   else 1.584 / 10 ^ 17 * freq * freq * dfnr_of v
                          / (th_of v * (freq * freq + dfnr_of v * dfnr_of v)))
      in
        if model \<in> set [''rose03'', ''rose98''] then
          (case dens_of v of
             None \<Rightarrow> (if o2_lines ll = [] then Inr summ0 else Inl UnboundLocalError)
           | Some dens \<Rightarrow> Inr (line_loop (o2_term_legacy v dens freq) 0 (o2_lines ll) summ0))
        else if model \<in> set [''rose17'', ''rose18''] then
          Inr (line_loop (o2_term_first_order v freq) 0 (o2_lines ll) summ0)
        else Inr (line_loop (o2_term_second_order v freq) 0 (o2_lines ll) summ0))"

text \<open>\<^verbatim>\<open>o2abs\<close> before the clamp (lines 627 to 629).\<close>

definition o2_resonant :: "string \<Rightarrow> o2_vars \<Rightarrow> real \<Rightarrow> real" where
  "o2_resonant model v summ =
     (if model \<in> set [''rose03'', ''rose98'']
      then 5.034 * 10 ^ 11 * summ * presda_of v * th_of v ^ 3 / 3.14159
      else 1.6097 * 10 ^ 11 * summ * presda_of v * th_of v ^ 3)"

text \<open>The two clamping statements (lines 631 to 634).\<close>

definition o2_clamp :: "string \<Rightarrow> real \<Rightarrow> real" where
  "o2_clamp model o2abs =
     (let o2abs' = (if model \<noteq> ''rose98'' then max o2abs 0 else o2abs)
      in if model \<in> set [''rose20'', ''rose20sd''] then 1.004 * max o2abs' 0 else o2abs')"

text \<open>The continuum term before the change of units (lines 643 to 656).\<close>

definition o2_continuum :: "string \<Rightarrow> o2_vars \<Rightarrow> real \<Rightarrow> py_error + real" where
  "o2_continuum model v freq =
     (let ncpp =
            (if model \<in> set [''rose03'', ''rose98''] then
               1.6 / 10 ^ 17 * freq * freq * dfnr_of v
                 / (th_of v * (freq * freq + dfnr_of v * dfnr_of v))
                 * (5.034 * 10 ^ 11 * presda_of v * th_of v ^ 3 / 3.14159)
             else
               1.584 / 10 ^ 17 * freq * freq * dfnr_of v
                 / (th_of v * (freq * freq + dfnr_of v * dfnr_of v))
                 * (1.6097 * 10 ^ 11 * presda_of v * th_of v ^ 3))
      in
        if model \<in> set [''rose03'', ''rose16'', ''rose17'', ''rose18'', ''rose98''] then
          and_then (n2_absorption model (temp_of v) (pres_of v) freq) (\<lambda>n2. Inr (ncpp + n2))
        else Inr ncpp)"

text \<open>The function returns the pair \<open>(npp, ncpp)\<close>.\<close>

definition o2abs_rosen19 ::
  "string \<Rightarrow> o2ll \<Rightarrow> real \<Rightarrow> real \<Rightarrow> real \<Rightarrow> real \<Rightarrow> py_error + (real \<times> real)" where
  "o2abs_rosen19 model ll pdrykpa vx ekpa frq =
     (let db2np = ln 10 * 0.1;
          factor = 0.182 * frq
      in
        and_then (o2_setup model ll pdrykpa vx ekpa) (\<lambda>v.
        and_then (o2_summ model ll v frq) (\<lambda>summ.
          let o2abs = o2_clamp model (o2_resonant model v summ)
          in
            and_then (o2_continuum model v frq) (\<lambda>ncpp.
              Inr (o2abs / db2np / factor, ncpp / db2np / factor)))))"

section \<open>\<^verbatim>\<open>H2OAbsModel.h2o_rosen19_sd\<close>\<close>

text \<open>
  One side \<open>j\<close> of one line in the speed-dependent loop: what the pass adds to
  \<^verbatim>\<open>res\<close>. \<^verbatim>\<open>dcerror\<close> comes from \<^verbatim>\<open>utils\<close> and is not among the sources, it is a
  parameter. \<^verbatim>\<open>delta2\<close> is bound, and read, for the model \<^verbatim>\<open>rose20sd\<close> only.
\<close>

definition h2o_sd_side ::
  "string \<Rightarrow> h2oll \<Rightarrow> (real \<Rightarrow> real \<Rightarrow> complex) \<Rightarrow> real \<Rightarrow> real \<Rightarrow> nat
     \<Rightarrow> real \<Rightarrow> real \<Rightarrow> real \<Rightarrow> real \<Rightarrow> nat \<Rightarrow> real \<Rightarrow> real" where
  "h2o_sd_side model ll dcerror pda pvap i width0 width2 wsq base j df_j =
     (if width2 > 0 \<and> j = 0 \<and> \<bar>df_j\<bar> < 10 * width0 then
        (let delta2 = (if i = 1 then h_d2air ll * pda + h_d2self ll * pvap else 0);
             xc = (if model = ''rose20sd''
                   then Complex (width0 - 1.5 * width2) (df_j + 1.5 * delta2)
                          / Complex width2 (- delta2)
                   else Complex (width0 - 1.5 * width2) df_j / of_real width2);
             xrt = csqrt xc;
             pxw = of_real 1.77245385090551603 * xrt * dcerror (- Im xrt) (Re xrt);
             sd = 2 * (1 - pxw)
                    / (if model \<noteq> ''rose20sd'' then of_real width2
                       else Complex width2 (- delta2))
         in Re sd - base)
      else if \<bar>df_j\<bar> < 750 then width0 / (df_j ^ 2 + wsq) - base
      else 0)"

text \<open>The term of the loop of the models whose name starts with \<^verbatim>\<open>rose19sd\<close> or \<^verbatim>\<open>rose20sd\<close>.\<close>

definition h2o_term_sd ::
  "string \<Rightarrow> h2oll \<Rightarrow> (real \<Rightarrow> real \<Rightarrow> complex) \<Rightarrow> real \<Rightarrow> real \<Rightarrow> real \<Rightarrow> real \<Rightarrow> real
     \<Rightarrow> real \<Rightarrow> nat \<Rightarrow> h2o_line \<Rightarrow> real" where
  "h2o_term_sd model ll dcerror pda pvap ti tiln ti2 f i l =
     (let width0 = h_w0 l * pda * ti powr h_x l + h_w0s l * pvap * ti powr h_xs l;
          width2 = h_w2 l * pda + h_w2s l * pvap;
          shiftf = h_sh l * pda * (1 - h_aair l * tiln) * ti powr h_xh l;
          shifts = h_shs l * pvap * (1 - h_aself l * tiln) * ti powr h_xhs l;
          shift = shiftf + shifts;
          wsq = width0 ^ 2;
          s = h_s1 l * ti2 * exp (h_b2 l * (1 - ti));
          df0 = f - h_fl l - shift;
          df1 = f + h_fl l + shift;
          base = width0 / (562500 + wsq);
          res = 0 + h2o_sd_side model ll dcerror pda pvap i width0 width2 wsq base 0 df0
                  + h2o_sd_side model ll dcerror pda pvap i width0 width2 wsq base 1 df1
      in s * res * (f / h_fl l) ^ 2)"

text \<open>
  The term of the loop of \<^verbatim>\<open>rose16\<close>, \<^verbatim>\<open>rose03\<close>, \<^verbatim>\<open>rose17\<close> and \<^verbatim>\<open>rose98\<close>; its
  cutoff test is \<^verbatim>\<open><= 750\<close>.
\<close>

definition h2o_term_lorentz ::
  "string \<Rightarrow> real \<Rightarrow> real \<Rightarrow> real \<Rightarrow> real \<Rightarrow> real \<Rightarrow> nat \<Rightarrow> h2o_line \<Rightarrow> real" where
  "h2o_term_lorentz model pda pvap ti ti2 f i l =
     (let widthf = h_w0 l * pda * ti powr h_x l;
          widths = h_w0s l * pvap * ti powr h_xs l;
          width = widthf + widths;
          shift = (if model = ''rose98'' then 0
                   else h_sr l * (if model = ''rose03'' then width else widthf));
          wsq = width ^ 2;
          s = h_s1 l * ti2 * exp (h_b2 l * (1 - ti));
          df0 = f - h_fl l - shift;
          df1 = f + h_fl l + shift;
          base = width / (562500 + wsq);
          res = 0 + (if \<bar>df0\<bar> \<le> 750 then width / (df0 ^ 2 + wsq) - base else 0)
                  + (if \<bar>df1\<bar> \<le> 750 then width / (df1 ^ 2 + wsq) - base else 0)
      in s * res * (f / h_fl l) ^ 2)"

text \<open>The term of the loop of \<^verbatim>\<open>rose19\<close> and \<^verbatim>\<open>rose20\<close>.\<close>

definition h2o_term_shift ::
  "real \<Rightarrow> real \<Rightarrow> real \<Rightarrow> real \<Rightarrow> real \<Rightarrow> real \<Rightarrow> nat \<Rightarrow> h2o_line \<Rightarrow> real" where
  "h2o_term_shift pda pvap ti tiln ti2 f i l =
     (let widthf = h_w0 l * pda * ti powr h_x l;
          widths = h_w0s l * pvap * ti powr h_xs l;
          width = widthf + widths;
          shiftf = h_sh l * pda * (1 - h_aair l * tiln) * ti powr h_xh l;
          shifts = h_shs l * pvap * (1 - h_aself l * tiln) * ti powr h_xhs l;
          shift = shiftf + shifts;
          wsq = width ^ 2;
          s = h_s1 l * ti2 * exp (h_b2 l * (1 - ti));
          df0 = f - h_fl l - shift;
          df1 = f + h_fl l + shift;
          base = width / (562500 + wsq);
          res = 0 + (if \<bar>df0\<bar> < 750 then width / (df0 ^ 2 + wsq) - base else 0)
                  + (if \<bar>df1\<bar> < 750 then width / (df1 ^ 2 + wsq) - base else 0)
      in s * res * (f / h_fl l) ^ 2)"

text \<open>The term of the loop of \<^verbatim>\<open>rose18\<close>.\<close>

definition h2o_term_rose18 ::
  "real \<Rightarrow> real \<Rightarrow> real \<Rightarrow> real \<Rightarrow> real \<Rightarrow> nat \<Rightarrow> h2o_line \<Rightarrow> real" where
  "h2o_term_rose18 pda pvap ti ti2 f i l =
     (let widthf = h_w0 l * pda * ti powr h_x l;
          widths = h_w0s l * pvap * ti powr h_xs l;
          width = widthf + widths;
          shiftf = h_sh l * pda * ti powr h_xh l;
          shifts = h_shs l * pvap * ti powr h_xhs l;
          shift = shiftf + shifts;
          wsq = width ^ 2;
          s = h_s1 l * ti2 * exp (h_b2 l * (1 - ti));
          df0 = f - h_fl l - shift;
          df1 = f + h_fl l + shift;
          base = width / (562500 + wsq);
          res = 0 + (if \<bar>df0\<bar> < 750 then width / (df0 ^ 2 + wsq) - base else 0)
                  + (if \<bar>df1\<bar> < 750 then width / (df1 ^ 2 + wsq) - base else 0)
      in s * res * (f / h_fl l) ^ 2)"

text \<open>
  The \<^verbatim>\<open>if\<close>/\<^verbatim>\<open>elif\<close> chain over the model that runs one of the four loops. It has no
  \<^verbatim>\<open>else\<close>: for any other string \<^verbatim>\<open>summ\<close> stays unbound, which is \<open>None\<close> here.
\<close>

definition h2o_summ ::
  "string \<Rightarrow> h2oll \<Rightarrow> (real \<Rightarrow> real \<Rightarrow> complex) \<Rightarrow> real \<Rightarrow> real \<Rightarrow> real \<Rightarrow> real
     \<Rightarrow> real option" where
  "h2o_summ model ll dcerror pda pvap ti f =
     (if prefix ''rose19sd'' model \<or> prefix ''rose20sd'' model then
        Some (line_loop
                (h2o_term_sd model ll dcerror pda pvap ti (ln ti) (exp (2.5 * ln ti)) f)
                0 (h_lines ll) 0)
      else if model \<in> set [''rose16'', ''rose03'', ''rose17'', ''rose98''] then
        Some (line_loop (h2o_term_lorentz model pda pvap ti (ti powr 2.5) f) 0 (h_lines ll) 0)
      else if model \<in> set [''rose19'', ''rose20''] then
        Some (line_loop (h2o_term_shift pda pvap ti (ln ti) (exp (2.5 * ln ti)) f)
                0 (h_lines ll) 0)
      else if model = ''rose18'' then
        Some (line_loop (h2o_term_rose18 pda pvap ti (ti powr 2.5) f) 0 (h_lines ll) 0)
      else None)"

text \<open>
  The whole function. The test \<^verbatim>\<open>rho.any() <= 0.0\<close> compares a truth value with zero:
  \<^verbatim>\<open>rho.any()\<close> is true when \<open>rho\<close> is not zero. \<open>Inr None\<close> is the bare
  \<^verbatim>\<open>return\<close>, \<open>Inr (Some (npp, ncpp))\<close> the pair returned at the end, and reading the
  unbound \<^verbatim>\<open>summ\<close> raises \<^verbatim>\<open>UnboundLocalError\<close>.
\<close>

definition h2o_rosen19_sd ::
  "string \<Rightarrow> h2oll \<Rightarrow> (real \<Rightarrow> real \<Rightarrow> complex) \<Rightarrow> real \<Rightarrow> real \<Rightarrow> real \<Rightarrow> real
     \<Rightarrow> py_error + (real \<times> real) option" where
  "h2o_rosen19_sd model ll dcerror pdrykpa vx ekpa frq =
     (let db2np = ln 10 * 0.1;
          rvap = 0.01 * 8.31451 / 18.01528;
          factor = 0.182 * frq;
          t = 300 / vx;
          p = (pdrykpa + ekpa) * 10;
          rho = ekpa * 10 / (rvap * t);
          f = frq
      in
        if as_number (rho \<noteq> 0) \<le> 0 then Inr None
        else
          (let pvap = (if model \<in> set [''rose03'', ''rose16'', ''rose17'', ''rose98'']
                       then rho * t / 217
                       else rho * t / 216.68);
               pda = p - pvap;
               den = (if model \<in> set [''rose03'', ''rose16'', ''rose98'']
                      then 3.335 * 10 ^ 16 * rho
                      else 3.344 * 10 ^ 16 * rho);
               tic = h_reftcon ll / t;
               con = (if model \<in> set [''rose03'', ''rose98'']
                      then (5.43 / 10 ^ 10 * pda * tic ^ 3 + 1.8 / 10 ^ 8 * pvap * tic powr 7.5)
                             * pvap * f * f
                      else (h_cf ll * pda * tic powr h_xcf ll + h_cs ll * pvap * tic powr h_xcs ll)
                             * pvap * f * f);
               ti = h_reftline ll / t
           in
             case h2o_summ model ll dcerror pda pvap ti f of
               None \<Rightarrow> Inl UnboundLocalError
             | Some summ \<Rightarrow>
                 Inr (Some (3.183 / 10 ^ 5 * den * summ / db2np / factor,
                            con / db2np / factor))))"

section \<open>A concrete line table\<close>

text \<open>
  An oxygen table with a single line, the concrete input on which the clamp of
  \<^verbatim>\<open>o2abs_rosen19\<close> is evaluated below.
\<close>

definition one_line_o2ll :: o2ll where
  "one_line_o2ll =
     \<lparr>o2_x = 0.8, o2_wb300 = 0.56,
      o2_lines =
        [\<lparr>o2_f = 2, o2_s300 = 1, o2_be = 0, o2_w300 = 1, o2_y300 = 2, o2_v = 0,
          o2_y0 = 0, o2_y1 = 0, o2_dnu0 = 0, o2_dnu1 = 0, o2_g0 = 0, o2_g1 = 0\<rparr>]\<rparr>"

section \<open>Properties\<close>

subsection \<open>Indexing and index ranges\<close>

lemma subscript_error: "subscript xs i = Inl e \<Longrightarrow> e = IndexError"
  by (auto simp: subscript_def split: if_splits)

lemma subscript_member: "subscript xs i = Inr v \<Longrightarrow> v \<in> set xs"
  by (auto simp: subscript_def split: if_splits)

lemma assign_nil: "assign [] i v = Inl IndexError"
  by (simp add: assign_def)

lemma arange_cons: "a \<le> b \<Longrightarrow> arange a b = a # arange (a + 1) b"
  by (simp add: arange_def upto_rec1)

lemma arange_1_3: "arange 1 3 = [1, 2, 3]"
  by (simp add: arange_def upto_rec1)

lemma arange_1_2: "arange 1 2 = [1, 2]"
  by (simp add: arange_def upto_rec1)

subsection \<open>Layer integration\<close>

lemma xlayer_of_near_equal:
  "\<bar>x_i - x_prev\<bar> < 1 / 10 ^ 9 \<Longrightarrow> xlayer_of zeroflg x_prev x_i = Inr x_i"
  by (simp add: xlayer_of_def)

lemma xlayer_of_zero_endpoint:
  "\<not> \<bar>x_i - x_prev\<bar> < 1 / 10 ^ 9 \<Longrightarrow> x_prev = 0 \<or> x_i = 0 \<Longrightarrow>
   xlayer_of zeroflg x_prev x_i = Inr (if zeroflg = 0 then 0 else (x_i + x_prev) * 0.5)"
  by (simp add: xlayer_of_def)

lemma xlayer_of_log_mean:
  "\<not> \<bar>x_i - x_prev\<bar> < 1 / 10 ^ 9 \<Longrightarrow> x_prev \<noteq> 0 \<Longrightarrow> x_i \<noteq> 0 \<Longrightarrow>
   xlayer_of zeroflg x_prev x_i = Inl TypeError"
  by (simp add: xlayer_of_def)

text \<open>
  C6. The claim gives a layer whose endpoints are positive and further apart than
  \<open>1e-9\<close> the log-mean \<open>(x[i] - x[i-1]) / ln (x[i] / x[i-1])\<close> as its value. On the
  profile \<open>x = [1, 2, 4]\<close> with \<open>ds = [0, 1, 1]\<close>, integrated from \<open>ibeg = 0\<close> to
  \<open>iend = 2\<close>, the function raises \<^verbatim>\<open>TypeError\<close> at the first layer instead: the
  branch calls the array, \<^verbatim>\<open>x(i)\<close>, where the other three branches subscript it.
\<close>

theorem exp_int_xxx_log_mean_raises:
  "exp_int_xxx 0 [1, 2, 4] [0, 1, 1] 0 2 1 = Inl TypeError"
  by (simp add: exp_int_xxx_def arange_1_2 zeros_like_def exp_int_body_def and_then_def
      subscript_def assign_def xlayer_of_def)

text \<open>
  C7, as stated, fails: the claim has the early return hand back the partial sum
  multiplied by \<open>factor\<close>. On \<open>x = [1, 1, -1, 1]\<close>, \<open>ds = [0, 2, 3, 4]\<close>,
  \<open>ibeg = 0\<close>, \<open>iend = 3\<close> and \<open>factor = 10\<close> the first layer contributes 2 and the
  second has a negative endpoint: the function warns and returns the sum 2 as it
  stands, not 20, with the per-layer array \<open>[0, 2, 0, 0]\<close>.
\<close>

theorem exp_int_xxx_abort_sum_unscaled:
  "exp_int_xxx 0 [1, 1, - 1, 1] [0, 2, 3, 4] 0 3 10 = Inr ([ExpIntError], 2, [0, 2, 0, 0])"
  by (simp add: exp_int_xxx_def arange_1_3 zeros_like_def exp_int_body_def and_then_def
      subscript_def assign_def xlayer_of_def numeral_2_eq_2)

text \<open>The same profile without the negative level: the normal exit does scale.\<close>

lemma exp_int_xxx_normal_sum_scaled:
  "exp_int_xxx 0 [1, 1, 1] [0, 2, 3] 0 2 10 = Inr ([], 50, [0, 2, 3])"
  by (simp add: exp_int_xxx_def arange_1_2 zeros_like_def exp_int_body_def and_then_def
      subscript_def assign_def xlayer_of_def numeral_2_eq_2)

lemma arange_split:
  "a \<le> k \<Longrightarrow> k \<le> b \<Longrightarrow> arange a b = arange a (k - 1) @ k # arange (k + 1) b"
  by (simp add: arange_def upto_split3)

text \<open>
  Layers that integrate without a warning hand their sum and their array on to the
  layers after them; with the factor 1 the sum is read off unscaled.
\<close>

lemma exp_int_loop_prefix:
  "exp_int_loop zeroflg x ds 1 js sxds xds = Inr ([], s, xs) \<Longrightarrow>
   exp_int_loop zeroflg x ds factor (js @ ks) sxds xds = exp_int_loop zeroflg x ds factor ks s xs"
proof (induction js arbitrary: sxds xds)
  case Nil
  then show ?case by simp
next
  case (Cons j js)
  show ?case
  proof (cases "exp_int_body zeroflg x ds j sxds xds")
    case (Inl e)
    with Cons.prems show ?thesis by simp
  next
    case (Inr step)
    show ?thesis
    proof (cases step)
      case Abort
      with Inr Cons.prems show ?thesis by simp
    next
      case (Next sxds' xds')
      with Inr Cons.prems have "exp_int_loop zeroflg x ds 1 js sxds' xds' = Inr ([], s, xs)"
        by simp
      from Cons.IH [OF this] Inr Next show ?thesis by simp
    qed
  qed
qed

lemma exp_int_body_negative:
  "subscript x (k - 1) = Inr a \<Longrightarrow> subscript x k = Inr b \<Longrightarrow> a < 0 \<or> b < 0 \<Longrightarrow>
   exp_int_body zeroflg x ds k sxds xds = Inr Abort"
  by (auto simp: exp_int_body_def and_then_def)

text \<open>
  C7, amended. Let the layers \<open>ibeg + 1, ..., k - 1\<close> integrate without a warning to
  the unscaled sum \<open>s\<close> and the per-layer array \<open>xs\<close> (the result with the factor 1),
  and let the layer \<open>k\<close> in \<open>[ibeg + 1, iend]\<close> have a negative endpoint. Then the
  function stops at \<open>k\<close> with the warning and returns \<open>xs\<close> together with \<open>s\<close> as it
  stands, not multiplied by \<open>factor\<close>; the layers from \<open>k\<close> on contribute nothing.
\<close>

theorem exp_int_xxx_abort_returns_partial:
  assumes "ibeg < k" and "k \<le> iend"
    and "exp_int_xxx zeroflg x ds ibeg (k - 1) 1 = Inr ([], s, xs)"
    and "subscript x (k - 1) = Inr a" and "subscript x k = Inr b" and "a < 0 \<or> b < 0"
  shows "exp_int_xxx zeroflg x ds ibeg iend factor = Inr ([ExpIntError], s, xs)"
proof -
  have split: "arange (ibeg + 1) iend = arange (ibeg + 1) (k - 1) @ k # arange (k + 1) iend"
    using assms(1,2) by (intro arange_split) simp_all
  have "exp_int_loop zeroflg x ds 1 (arange (ibeg + 1) (k - 1)) 0 (zeros_like ds)
        = Inr ([], s, xs)"
    using assms(3) by (simp add: exp_int_xxx_def)
  then have "exp_int_xxx zeroflg x ds ibeg iend factor
             = exp_int_loop zeroflg x ds factor (k # arange (k + 1) iend) s xs"
    by (simp only: exp_int_xxx_def split exp_int_loop_prefix)
  also have "\<dots> = Inr ([ExpIntError], s, xs)"
    using exp_int_body_negative [OF assms(4,5,6)] by simp
  finally show ?thesis .
qed

lemma exp_int_xxx_two_equal_layers:
  "exp_int_xxx 1 [0.5, 0.5, 0.5, - 2] [0, 1, 1, 1] 0 (3 - 1) 1 = Inr ([], 1, [0, 0.5, 0.5, 0])"
  by (simp add: exp_int_xxx_def arange_1_2 zeros_like_def exp_int_body_def and_then_def
      subscript_def assign_def xlayer_of_def numeral_2_eq_2)

theorem exp_int_xxx_abort_returns_partial_witness:
  "exp_int_xxx 1 [0.5, 0.5, 0.5, - 2] [0, 1, 1, 1] 0 (3 - 1) 1 = Inr ([], 1, [0, 0.5, 0.5, 0])
   \<and> exp_int_xxx 1 [0.5, 0.5, 0.5, - 2] [0, 1, 1, 1] 0 3 4
       = Inr ([ExpIntError], 1, [0, 0.5, 0.5, 0])"
  using exp_int_xxx_abort_returns_partial
    [of 0 3 3 1 "[0.5, 0.5, 0.5, - 2]" "[0, 1, 1, 1]" 1 "[0, 0.5, 0.5, 0]" "0.5" "- 2" 4]
    exp_int_xxx_two_equal_layers
  by (simp add: subscript_def numeral_2_eq_2 numeral_3_eq_3)

subsection \<open>Planck radiance accumulation\<close>

lemma planck_tail_saturated:
  "125 \<le> tauprof_nl \<Longrightarrow> planck_tail hvk Tc tauprof_nl boftatm_nl = (0, boftatm_nl, boftatm_nl)"
  by (simp add: planck_tail_def)

lemma planck_tail_unsaturated:
  "tauprof_nl < 125 \<Longrightarrow>
   planck_tail hvk Tc tauprof_nl boftatm_nl =
     (tk2b_mod hvk Tc * exp (- tauprof_nl),
      tk2b_mod hvk Tc * exp (- tauprof_nl) + boftatm_nl,
      boftatm_nl / (1 - exp (- tauprof_nl)))"
  by (simp add: planck_tail_def Let_def)

text \<open>
  C2. The claim has \<^verbatim>\<open>planck_xxx\<close> return \<open>bakgrnd\<close> and \<open>boftmr\<close> on either side of the
  ceiling 125. The closing branch of the function computes these values
  (\<open>planck_tail_saturated\<close>, \<open>planck_tail_unsaturated\<close>), but no call reaches it: for
  every frequency, temperature profile and optical-depth profile the function raises,
  \<^verbatim>\<open>IndexError\<close> when the temperature profile has fewer than two levels and
  \<^verbatim>\<open>NameError\<close> otherwise, at the store into the unbound \<^verbatim>\<open>boft\<close>.
\<close>

theorem planck_xxx_always_raises:
  "planck_xxx c frq tk taulay = (if length tk < 2 then Inl IndexError else Inl NameError)"
  by (auto simp: planck_xxx_def Let_def and_then_def unbound_name_def subscript_def
      split: sum.splits)

subsection \<open>Refractivity\<close>

lemma refract_body_nil: "refract_body p tk e i ([], [], []) = Inl IndexError"
  by (auto simp: refract_body_def and_then_def assign_nil Let_def
      dest: subscript_error split: sum.splits)

text \<open>What the function does return is the dry refractivity twice.\<close>

lemma refract_xxx_returns_dryn_twice:
  "refract_xxx p tk e = Inr (dryn, wetn, refindx) \<Longrightarrow> wetn = dryn"
  by (auto simp: refract_xxx_def and_then_def Let_def split: sum.splits prod.splits)

lemma refract_xxx_no_levels: "refract_xxx [] tk e = Inr ([], [], [])"
  by (simp add: refract_xxx_def arange_def and_then_def)

text \<open>
  C3. The claim has \<^verbatim>\<open>refract_xxx\<close> return three arrays related by
  \<open>refindx[i] = 1 + (dryn[i] + wetn[i]) * 1e-6\<close> at every level. For every pressure
  profile with at least one level the function returns nothing: the first pass
  through the loop stores into an empty list and raises \<^verbatim>\<open>IndexError\<close>.
\<close>

theorem refract_xxx_raises:
  assumes "p \<noteq> []"
  shows "refract_xxx p tk e = Inl IndexError"
proof -
  from assms have "1 \<le> int (length p)"
    by (cases p) auto
  then show ?thesis
    by (simp add: refract_xxx_def arange_cons refract_body_nil and_then_def)
qed

theorem refract_xxx_raises_witness:
  "[1013, 900] \<noteq> ([] :: real list) \<and> refract_xxx [1013, 900] [300, 290] [20, 15] = Inl IndexError"
  using refract_xxx_raises [of "[1013, 900]" "[300, 290]" "[20, 15]"] by simp

subsection \<open>Ray tracing\<close>

lemma refindx_scan_error: "refindx_scan refindx js = Inl e \<Longrightarrow> e = IndexError"
  by (induction js) (auto simp: and_then_def split: sum.splits if_splits dest: subscript_error)

lemma refindx_scan_all_ge:
  "\<forall>n \<in> set refindx. 1 \<le> n \<Longrightarrow> refindx_scan refindx js \<noteq> Inr True"
proof (induction js)
  case Nil
  then show ?case by simp
next
  case (Cons i rest)
  show ?case
  proof (cases "subscript refindx i")
    case (Inl e)
    then show ?thesis by (simp add: and_then_def)
  next
    case (Inr n)
    then have "1 \<le> n"
      using Cons.prems subscript_member by fastforce
    with Inr Cons show ?thesis by (simp add: and_then_def)
  qed
qed

lemma refindx_scan_finds:
  "0 \<le> a \<Longrightarrow> a \<le> i \<Longrightarrow> i \<le> b \<Longrightarrow> i < int (length refindx) \<Longrightarrow> refindx ! nat i < 1
   \<Longrightarrow> refindx_scan refindx (arange a b) = Inr True"
proof (induction "nat (i - a)" arbitrary: a)
  case 0
  then have "a = i" by simp
  with 0 show ?case
    by (simp add: arange_cons and_then_def subscript_def)
next
  case (Suc k)
  then have lt: "a < i" by linarith
  have sub: "subscript refindx a = Inr (refindx ! nat a)"
    using Suc.prems lt by (simp add: subscript_def)
  have rest: "refindx_scan refindx (arange (a + 1) b) = Inr True"
    using Suc.hyps(1) [of "a + 1"] Suc.hyps(2) Suc.prems lt by simp
  show ?case
    using Suc.prems lt by (simp add: arange_cons [of a b] and_then_def sub rest)
qed

lemma ray_trac_scan_raises:
  "refindx_scan refindx (arange 1 (int (length z))) = Inl e
   \<Longrightarrow> ray_trac_xxx c z refindx angle z0 = Inl IndexError"
  using refindx_scan_error [of refindx "arange 1 (int (length z))" e]
  by (simp add: ray_trac_xxx_def and_then_def)

lemma ray_trac_scan_true:
  "refindx_scan refindx (arange 1 (int (length z))) = Inr True
   \<Longrightarrow> ray_trac_xxx c z refindx angle z0 = Inr ([NegativeRefractiveIndex], None)"
  by (simp add: ray_trac_xxx_def and_then_def)

lemma ray_trac_scan_false:
  "refindx_scan refindx (arange 1 (int (length z))) = Inr False
   \<Longrightarrow> ray_trac_xxx c z refindx angle z0 = Inl IndexError"
  by (auto simp: ray_trac_xxx_def Let_def and_then_def assign_nil split: sum.splits
      dest: subscript_error)

text \<open>
  C5. The claim has the function stop with a warning and hand the caller the partial
  slant-path profile, both when a refractive index is below 1 and when a layer ducts.
  No call does: every call either raises \<^verbatim>\<open>IndexError\<close> or gives the warning for a
  refractive index below 1 and returns \<^verbatim>\<open>None\<close>. The ducting test, its warning and
  its \<^verbatim>\<open>return ds\<close> are never reached, since the store \<^verbatim>\<open>ds[1] = 0.0\<close> into the
  empty list raises first.
\<close>

theorem ray_trac_xxx_never_returns_profile:
  "ray_trac_xxx c z refindx angle z0 = Inl IndexError
   \<or> ray_trac_xxx c z refindx angle z0 = Inr ([NegativeRefractiveIndex], None)"
proof (cases "refindx_scan refindx (arange 1 (int (length z)))")
  case (Inl e)
  then show ?thesis by (simp add: ray_trac_scan_raises)
next
  case (Inr t)
  then show ?thesis
    by (cases t) (simp_all add: ray_trac_scan_true ray_trac_scan_false)
qed

text \<open>
  The loop body, were it reached with the levels it reads in range, would leave with
  the ducting warning and the profile so far whenever its argument \<^verbatim>\<open>argth\<close> is not
  positive.
\<close>

lemma ray_layer_ducting:
  assumes "subscript z i = Inr z_i" and "subscript refindx i = Inr n_i"
    and "subscript refindx (i - 1) = Inr n_prev" and "subscript refindx 1 = Inr n_1"
    and "0.5 * (a0 + (z_i / rs - (n_1 - n_i) * costh0 / n_i)) / (re + z_i + z0) \<le> 0"
  shows "ray_layer re z refindx angle z0 theta0 rs costh0 sina a0 phil taul rl tanthl ds i
         = Inr ([Ducting angle], Some ds)"
  using assms by (simp add: ray_layer_def and_then_def Let_def)

text \<open>
  A low geometry with a steep fall of the refractive index (half a degree of
  elevation, a fall by \<open>0.001\<close> over the first 100 m) raises \<^verbatim>\<open>IndexError\<close>.
\<close>

lemma ray_trac_xxx_ducting_geometry_raises:
  "ray_trac_xxx \<lparr>EarthRadius = 6370.949, Tcosmicbkg = 2.736, planck = 1, boltzmann = 1\<rparr>
     [0, 0, 0.1] [1.0013, 1.0013, 1.0003, 1.0003] 0.5 0 = Inl IndexError"
proof -
  have "refindx_scan [1.0013, 1.0013, 1.0003, 1.0003] (arange 1 (int (length [0, 0, 0.1 :: real])))
        = Inr False"
    by (simp add: arange_1_3 and_then_def subscript_def numeral_2_eq_2 numeral_3_eq_3)
  then show ?thesis by (rule ray_trac_scan_false)
qed

text \<open>
  The scan starts at level 1: a refractive index below 1 at index 0 gives no
  warning, and the call raises \<^verbatim>\<open>IndexError\<close>.
\<close>

lemma ray_trac_xxx_first_level_not_scanned:
  "ray_trac_xxx \<lparr>EarthRadius = 6370.949, Tcosmicbkg = 2.736, planck = 1, boltzmann = 1\<rparr>
     [0, 1, 2] [0.5, 1.0002, 1.0001] 45 0 = Inl IndexError"
proof -
  have "refindx_scan [0.5, 1.0002, 1.0001] (arange 1 (int (length [0, 1, 2 :: real])))
        = Inl IndexError"
    by (simp add: arange_1_3 and_then_def subscript_def numeral_2_eq_2)
  then show ?thesis by (rule ray_trac_scan_raises)
qed

text \<open>
  C4. The claim has a call at exactly 90 degrees, on refractive indices that are all
  at least 1, return the height-difference profile. Every such call raises
  \<^verbatim>\<open>IndexError\<close>: either the scan reads \<^verbatim>\<open>refindx[nl]\<close> past the end, or the branch
  for angles close to 90 degrees stores \<^verbatim>\<open>ds[1] = 0.0\<close> into the empty list.
\<close>

theorem ray_trac_xxx_vertical_raises:
  assumes "\<forall>n \<in> set refindx. 1 \<le> n"
  shows "ray_trac_xxx c z refindx 90 z0 = Inl IndexError"
proof (cases "refindx_scan refindx (arange 1 (int (length z)))")
  case (Inl e)
  then show ?thesis by (rule ray_trac_scan_raises)
next
  case (Inr t)
  with refindx_scan_all_ge [OF assms, of "arange 1 (int (length z))"] have "t = False"
    by simp
  with Inr show ?thesis by (simp add: ray_trac_scan_false)
qed

theorem ray_trac_xxx_vertical_raises_witness:
  "ray_trac_xxx \<lparr>EarthRadius = 6370.949, Tcosmicbkg = 2.736, planck = 1, boltzmann = 1\<rparr>
     [0, 1, 2] [1.0003, 1.0002, 1.0001] 90 0 = Inl IndexError"
  using ray_trac_xxx_vertical_raises [of "[1.0003, 1.0002, 1.0001]"] by simp

text \<open>
  With the refractive index 0.5 at level 1 the function warns and returns \<^verbatim>\<open>None\<close>.
\<close>

lemma ray_trac_xxx_below_one_example:
  "ray_trac_xxx \<lparr>EarthRadius = 6370.949, Tcosmicbkg = 2.736, planck = 1, boltzmann = 1\<rparr>
     [0, 1, 2] [1, 0.5, 1] 45 0 = Inr ([NegativeRefractiveIndex], None)"
proof -
  have "refindx_scan [1, 0.5, 1] (arange 1 (int (length [0, 1, 2 :: real]))) = Inr True"
    using refindx_scan_finds [of 1 1 3 "[1, 0.5, 1]"] by simp
  then show ?thesis by (rule ray_trac_scan_true)
qed

text \<open>
  Whenever the scan of the levels \<open>1, ..., nl\<close> meets a refractive index below 1 at a
  level \<open>k\<close> that exists in the refractive-index profile, the function gives the
  warning and returns \<^verbatim>\<open>None\<close>.
\<close>

lemma ray_trac_xxx_below_one_returns_none:
  assumes "1 \<le> k" and "k \<le> length z" and "k < length refindx" and "refindx ! k < 1"
  shows "ray_trac_xxx c z refindx angle z0 = Inr ([NegativeRefractiveIndex], None)"
proof -
  have "refindx_scan refindx (arange 1 (int (length z))) = Inr True"
    using refindx_scan_finds [of 1 "int k" "int (length z)" refindx] assms by simp
  then show ?thesis by (rule ray_trac_scan_true)
qed

subsection \<open>Oxygen absorption\<close>

lemma sum_returns_iff: "(\<exists>a. x = Inr a) \<longleftrightarrow> \<not> isl x"
  by (cases x) auto

lemma legacy_model_cases:
  "model \<in> set [''rose03'', ''rose16'', ''rose17'', ''rose18'', ''rose98''] \<Longrightarrow>
   model = ''rose03'' \<or> model = ''rose16'' \<or> model = ''rose17'' \<or> model = ''rose18''
   \<or> model = ''rose98''"
  by simp

text \<open>
  The models for which \<^verbatim>\<open>o2abs_rosen19\<close> calls \<^verbatim>\<open>n2_absorption\<close> are all known to it, so
  its \<^verbatim>\<open>ValueError\<close> is never raised from there.
\<close>

lemma n2_absorption_returns:
  assumes "model \<in> set [''rose03'', ''rose16'', ''rose17'', ''rose18'', ''rose98'']"
  shows "\<exists>a. n2_absorption model t p f = Inr a"
proof -
  consider "model = ''rose03''" | "model = ''rose16''" | "model = ''rose17''"
    | "model = ''rose18''" | "model = ''rose98''"
    using legacy_model_cases [OF assms] by blast
  then have "\<not> isl (n2_absorption model t p f)"
    by cases (simp_all add: n2_absorption_def Let_def and_then_def)
  then show ?thesis by (simp add: sum_returns_iff)
qed

text \<open>An unknown model string does reach the \<^verbatim>\<open>ValueError\<close> of \<^verbatim>\<open>n2_absorption\<close>.\<close>

lemma n2_absorption_unknown_model: "n2_absorption ''not_a_model'' t p f = Inl ValueError"
  by (simp add: n2_absorption_def Let_def and_then_def)

text \<open>
  The set-up raises exactly when the temperature ratio \<open>vx\<close> is zero, at the first
  division.
\<close>

lemma o2_setup_zero: "o2_setup model ll pdrykpa 0 ekpa = Inl ZeroDivisionError"
  by (simp add: o2_setup_def Let_def float_div_def and_then_def)

lemma o2_setup_returns:
  assumes "vx \<noteq> 0"
  shows "\<exists>v. o2_setup model ll pdrykpa vx ekpa = Inr v"
proof -
  have "\<not> isl (o2_setup model ll pdrykpa vx ekpa)"
    using assms by (simp add: o2_setup_def Let_def float_div_def and_then_def)
  then show ?thesis by (simp add: sum_returns_iff)
qed

lemma o2_setup_dens:
  assumes "o2_setup model ll pdrykpa vx ekpa = Inr v" and "model \<in> set [''rose03'', ''rose98'']"
  shows "dens_of v \<noteq> None"
proof -
  have vx: "vx \<noteq> 0" using assms(1) by (auto simp: o2_setup_zero)
  consider "model = ''rose03''" | "model = ''rose98''" using assms(2) by auto
  then have "dens_of (projr (o2_setup model ll pdrykpa vx ekpa)) \<noteq> None"
    using vx
    by cases (simp_all add: o2_setup_def Let_def float_div_def and_then_def del: not_None_eq)
  with assms(1) show ?thesis by simp
qed

lemma o2_summ_returns:
  assumes "o2_setup model ll pdrykpa vx ekpa = Inr v"
  shows "\<exists>s. o2_summ model ll v frq = Inr s"
proof (cases "model \<in> set [''rose03'', ''rose98'']")
  case True
  from o2_setup_dens [OF assms True] obtain d where "dens_of v = Some d" by blast
  with True have "\<not> isl (o2_summ model ll v frq)" by (simp add: o2_summ_def Let_def)
  then show ?thesis by (simp add: sum_returns_iff)
next
  case False
  then have "\<not> isl (o2_summ model ll v frq)" by (simp add: o2_summ_def Let_def)
  then show ?thesis by (simp add: sum_returns_iff)
qed

lemma o2_continuum_returns: "\<exists>c. o2_continuum model v frq = Inr c"
proof (cases "model \<in> set [''rose03'', ''rose16'', ''rose17'', ''rose18'', ''rose98'']")
  case True
  from n2_absorption_returns [OF True]
  obtain a where "n2_absorption model (temp_of v) (pres_of v) frq = Inr a"
    by blast
  with True have "\<not> isl (o2_continuum model v frq)"
    by (simp add: o2_continuum_def Let_def and_then_def)
  then show ?thesis by (simp add: sum_returns_iff)
next
  case False
  then have "\<not> isl (o2_continuum model v frq)"
    by (simp add: o2_continuum_def Let_def)
  then show ?thesis by (simp add: sum_returns_iff)
qed

lemma o2_clamp_eq:
  "o2_clamp model x =
     (if model = ''rose98'' then x
      else if model \<in> set [''rose20'', ''rose20sd''] then 1.004 * max x 0
      else max x 0)"
  by (simp add: o2_clamp_def Let_def)

lemma db2np_pos: "0 < ln (10::real) * 0.1"
  by simp

text \<open>
  C9. Let the temperature ratio and the frequency be positive. Then \<^verbatim>\<open>o2abs_rosen19\<close>
  returns a pair \<open>(npp, ncpp)\<close>, and with \<open>o2abs\<close> the absorption \<open>o2_resonant\<close> of the
  line sum as it stands after the summation, the resonant term is \<open>max o2abs 0\<close> in
  the returned units for every model string other than \<^verbatim>\<open>rose98\<close> (with the further
  factor 1.004 for \<^verbatim>\<open>rose20\<close> and \<^verbatim>\<open>rose20sd\<close>), hence not negative; for \<^verbatim>\<open>rose98\<close>
  the clamp is skipped and the term is \<open>o2abs\<close> itself in the returned units, whatever
  its sign.
\<close>

theorem o2abs_rosen19_clamp:
  assumes "0 < vx" and "0 < frq"
  shows "\<exists>v summ npp ncpp.
           o2_setup model ll pdrykpa vx ekpa = Inr v
           \<and> o2_summ model ll v frq = Inr summ
           \<and> o2abs_rosen19 model ll pdrykpa vx ekpa frq = Inr (npp, ncpp)
           \<and> npp = (if model = ''rose98'' then o2_resonant model v summ
                    else if model \<in> set [''rose20'', ''rose20sd'']
                      then 1.004 * max (o2_resonant model v summ) 0
                    else max (o2_resonant model v summ) 0)
                   / (ln 10 * 0.1) / (0.182 * frq)
           \<and> (model \<noteq> ''rose98'' \<longrightarrow> 0 \<le> npp)"
proof -
  have "vx \<noteq> 0" using assms(1) by simp
  from o2_setup_returns [OF this, of model ll pdrykpa ekpa]
  obtain v where v: "o2_setup model ll pdrykpa vx ekpa = Inr v"
    by blast
  obtain s where s: "o2_summ model ll v frq = Inr s"
    using o2_summ_returns [OF v] by blast
  obtain c where c: "o2_continuum model v frq = Inr c"
    using o2_continuum_returns by blast
  define npp where "npp = o2_clamp model (o2_resonant model v s) / (ln 10 * 0.1) / (0.182 * frq)"
  have run: "o2abs_rosen19 model ll pdrykpa vx ekpa frq = Inr (npp, c / (ln 10 * 0.1) / (0.182 * frq))"
    by (simp only: o2abs_rosen19_def Let_def and_then_def v s c sum.case npp_def)
  have exact: "npp = (if model = ''rose98'' then o2_resonant model v s
                    else if model \<in> set [''rose20'', ''rose20sd'']
                      then 1.004 * max (o2_resonant model v s) 0
                    else max (o2_resonant model v s) 0)
                   / (ln 10 * 0.1) / (0.182 * frq)"
    by (simp only: npp_def o2_clamp_eq)
  have sign: "0 \<le> npp" if "model \<noteq> ''rose98''"
  proof -
    have "0 \<le> o2_clamp model (o2_resonant model v s)"
      using that by (simp add: o2_clamp_eq)
    then show ?thesis
      unfolding npp_def using assms(2) db2np_pos by (intro divide_nonneg_pos) simp_all
  qed
  from v s run exact sign show ?thesis by blast
qed

text \<open>
  The one-line table at 300 K, 1000 mb of dry air and 1 GHz: under \<^verbatim>\<open>rose19\<close> the
  absorption is positive and is returned as it is, under \<^verbatim>\<open>rose98\<close> the line sum is
  \<open>-1/4\<close> and the negative absorption is returned as it is.
\<close>

lemma one_line_o2ll_lines:
  "o2_lines one_line_o2ll =
     [\<lparr>o2_f = 2, o2_s300 = 1, o2_be = 0, o2_w300 = 1, o2_y300 = 2, o2_v = 0,
       o2_y0 = 0, o2_y1 = 0, o2_dnu0 = 0, o2_dnu1 = 0, o2_g0 = 0, o2_g1 = 0\<rparr>]"
  by (simp add: one_line_o2ll_def)

lemma o2_setup_rose98_one_line:
  "o2_setup ''rose98'' one_line_o2ll 100 1 0 =
     Inr \<lparr>temp_of = 300, pres_of = 1000, th_of = 1, th1_of = 0, b_of = 1,
          presda_of = 1000, den_of = 1, dens_of = Some 1, dfnr_of = 0.56, pe2_of = 1\<rparr>"
  by (simp add: o2_setup_def Let_def float_div_def and_then_def one_line_o2ll_def)

lemma o2_summ_rose98_one_line:
  "o2_summ ''rose98'' one_line_o2ll
     \<lparr>temp_of = 300, pres_of = 1000, th_of = 1, th1_of = 0, b_of = 1,
      presda_of = 1000, den_of = 1, dens_of = Some 1, dfnr_of = 0.56, pe2_of = 1\<rparr> 1
   = Inr (- 1 / 4)"
  by (simp add: o2_summ_def Let_def one_line_o2ll_lines o2_term_legacy_def power2_eq_square)

lemma o2_resonant_rose98_one_line:
  "o2_resonant ''rose98''
     \<lparr>temp_of = 300, pres_of = 1000, th_of = 1, th1_of = 0, b_of = 1,
      presda_of = 1000, den_of = 1, dens_of = Some 1, dfnr_of = 0.56, pe2_of = 1\<rparr> (- 1 / 4) < 0"
  by (simp add: o2_resonant_def)

lemma o2_setup_rose19_one_line:
  "o2_setup ''rose19'' one_line_o2ll 100 1 0 =
     Inr \<lparr>temp_of = 300, pres_of = 1000, th_of = 1, th1_of = 0, b_of = 1,
          presda_of = 1000, den_of = 1, dens_of = None, dfnr_of = 0.56, pe2_of = 1\<rparr>"
  by (simp add: o2_setup_def Let_def float_div_def and_then_def one_line_o2ll_def)

lemma o2_summ_rose19_one_line:
  "o2_summ ''rose19'' one_line_o2ll
     \<lparr>temp_of = 300, pres_of = 1000, th_of = 1, th1_of = 0, b_of = 1,
      presda_of = 1000, den_of = 1, dens_of = None, dfnr_of = 0.56, pe2_of = 1\<rparr> 1
   = Inr (1.584 / 10 ^ 17 * 0.56 / (1 + 0.56 * 0.56) + 0.15)"
  by (simp add: o2_summ_def Let_def one_line_o2ll_lines o2_term_second_order_def power2_eq_square)

theorem o2abs_rosen19_clamp_witness:
  "(\<exists>npp ncpp. o2abs_rosen19 ''rose19'' one_line_o2ll 100 1 0 1 = Inr (npp, ncpp) \<and> 0 < npp)
   \<and> (\<exists>npp ncpp. o2abs_rosen19 ''rose98'' one_line_o2ll 100 1 0 1 = Inr (npp, ncpp) \<and> npp < 0)"
proof
  from o2abs_rosen19_clamp [of 1 1 "''rose19''" one_line_o2ll 100 0]
  obtain v summ npp ncpp where
    v: "o2_setup ''rose19'' one_line_o2ll 100 1 0 = Inr v"
    and s: "o2_summ ''rose19'' one_line_o2ll v 1 = Inr summ"
    and run: "o2abs_rosen19 ''rose19'' one_line_o2ll 100 1 0 1 = Inr (npp, ncpp)"
    and npp: "npp = max (o2_resonant ''rose19'' v summ) 0 / (ln 10 * 0.1) / (0.182 * 1)"
    by auto
  from v have v': "v = \<lparr>temp_of = 300, pres_of = 1000, th_of = 1, th1_of = 0, b_of = 1,
      presda_of = 1000, den_of = 1, dens_of = None, dfnr_of = 0.56, pe2_of = 1\<rparr>"
    by (simp add: o2_setup_rose19_one_line)
  from s have "summ = 1.584 / 10 ^ 17 * 0.56 / (1 + 0.56 * 0.56) + 0.15"
    by (simp only: v' o2_summ_rose19_one_line sum.inject)
  then have "0 < o2_resonant ''rose19'' v summ"
    by (simp add: v' o2_resonant_def)
  then have "0 < max (o2_resonant ''rose19'' v summ) 0" by simp
  then have "0 < npp"
    unfolding npp using db2np_pos by (intro divide_pos_pos) simp_all
  with run show "\<exists>npp ncpp. o2abs_rosen19 ''rose19'' one_line_o2ll 100 1 0 1 = Inr (npp, ncpp) \<and> 0 < npp"
    by blast
next
  from o2abs_rosen19_clamp [of 1 1 "''rose98''" one_line_o2ll 100 0]
  obtain v summ npp ncpp where
    v: "o2_setup ''rose98'' one_line_o2ll 100 1 0 = Inr v"
    and s: "o2_summ ''rose98'' one_line_o2ll v 1 = Inr summ"
    and run: "o2abs_rosen19 ''rose98'' one_line_o2ll 100 1 0 1 = Inr (npp, ncpp)"
    and npp: "npp = o2_resonant ''rose98'' v summ / (ln 10 * 0.1) / (0.182 * 1)"
    by auto
  from v have v': "v = \<lparr>temp_of = 300, pres_of = 1000, th_of = 1, th1_of = 0, b_of = 1,
      presda_of = 1000, den_of = 1, dens_of = Some 1, dfnr_of = 0.56, pe2_of = 1\<rparr>"
    by (simp add: o2_setup_rose98_one_line)
  from s have "summ = - 1 / 4"
    by (simp only: v' o2_summ_rose98_one_line sum.inject)
  then have "o2_resonant ''rose98'' v summ < 0"
    by (simp only: v' o2_resonant_rose98_one_line)
  then have "npp < 0"
    unfolding npp using db2np_pos by (intro divide_neg_pos) simp_all
  with run show "\<exists>npp ncpp. o2abs_rosen19 ''rose98'' one_line_o2ll 100 1 0 1 = Inr (npp, ncpp) \<and> npp < 0"
    by blast
qed

subsection \<open>Unknown model strings\<close>

text \<open>
  A model string outside the seven that some test of \<^verbatim>\<open>o2abs_rosen19\<close> names takes the
  \<^verbatim>\<open>else\<close> side of every test, as \<^verbatim>\<open>rose19\<close> does.
\<close>

lemma o2abs_rosen19_else_branch:
  assumes "model \<notin> set [''rose03'', ''rose16'', ''rose17'', ''rose18'', ''rose98'',
                          ''rose20'', ''rose20sd'']"
  shows "o2abs_rosen19 model ll pdrykpa vx ekpa frq
         = o2abs_rosen19 ''rose19'' ll pdrykpa vx ekpa frq"
proof -
  have m: "model \<noteq> ''rose03''" "model \<noteq> ''rose16''" "model \<noteq> ''rose17''"
    "model \<noteq> ''rose18''" "model \<noteq> ''rose98''" "model \<noteq> ''rose20''" "model \<noteq> ''rose20sd''"
    using assms by simp_all
  have 1: "o2_setup model ll pdrykpa vx ekpa = o2_setup ''rose19'' ll pdrykpa vx ekpa"
    using m by (simp add: o2_setup_def Let_def)
  have 2: "o2_summ model ll v frq = o2_summ ''rose19'' ll v frq" for v
    using m by (simp add: o2_summ_def Let_def)
  have 3: "o2_continuum model v frq = o2_continuum ''rose19'' v frq" for v
    using m by (simp add: o2_continuum_def Let_def)
  have 4: "o2_clamp model x = o2_clamp ''rose19'' x" for x
    using m by (simp add: o2_clamp_def Let_def)
  have 5: "o2_resonant model v x = o2_resonant ''rose19'' v x" for v x
    using m by (simp add: o2_resonant_def)
  show ?thesis
    by (simp only: o2abs_rosen19_def 1 2 3 4 5)
qed

lemma o2abs_rosen19_zero_vx: "o2abs_rosen19 model ll pdrykpa 0 ekpa frq = Inl ZeroDivisionError"
  by (simp add: o2abs_rosen19_def Let_def and_then_def o2_setup_zero)

lemma h2o_summ_unknown: "h2o_summ ''not_a_model'' hl dcerror pda pvap ti f = None"
  by (simp add: h2o_summ_def)

text \<open>
  C1. The claim has both routines raise a descriptive unknown-model error for the
  model string \<^verbatim>\<open>not_a_model\<close> before any numeric work. \<^verbatim>\<open>o2abs_rosen19\<close> raises
  no such error: it does what it does for the model \<^verbatim>\<open>rose19\<close>, which is to return a
  pair unless the temperature ratio is zero and the first division fails.
  \<^verbatim>\<open>h2o_rosen19_sd\<close> returns \<^verbatim>\<open>None\<close> when the vapour density is zero, and otherwise
  computes the continuum and only then fails on the unbound \<^verbatim>\<open>summ\<close> with
  \<^verbatim>\<open>UnboundLocalError\<close>.
\<close>

theorem unknown_model_not_rejected:
  "o2abs_rosen19 ''not_a_model'' ll pdrykpa vx ekpa frq
     = o2abs_rosen19 ''rose19'' ll pdrykpa vx ekpa frq
   \<and> (\<exists>npp ncpp. o2abs_rosen19 ''not_a_model'' ll pdrykpa vx ekpa frq
         = (if vx = 0 then Inl ZeroDivisionError else Inr (npp, ncpp)))
   \<and> h2o_rosen19_sd ''not_a_model'' hl dcerror pdrykpa vx ekpa frq
       = (if ekpa * 10 / (0.01 * 8.31451 / 18.01528 * (300 / vx)) = 0 then Inr None
          else Inl UnboundLocalError)"
proof (intro conjI)
  show "o2abs_rosen19 ''not_a_model'' ll pdrykpa vx ekpa frq
        = o2abs_rosen19 ''rose19'' ll pdrykpa vx ekpa frq"
    by (rule o2abs_rosen19_else_branch) simp
  show "\<exists>npp ncpp. o2abs_rosen19 ''not_a_model'' ll pdrykpa vx ekpa frq
         = (if vx = 0 then Inl ZeroDivisionError else Inr (npp, ncpp))"
  proof (cases "vx = 0")
    case True
    then show ?thesis by (simp add: o2abs_rosen19_zero_vx)
  next
    case False
    from o2_setup_returns [OF False, of "''not_a_model''" ll pdrykpa ekpa]
    obtain v where v: "o2_setup ''not_a_model'' ll pdrykpa vx ekpa = Inr v"
      by blast
    obtain s where s: "o2_summ ''not_a_model'' ll v frq = Inr s"
      using o2_summ_returns [OF v] by blast
    obtain c where c: "o2_continuum ''not_a_model'' v frq = Inr c"
      using o2_continuum_returns by blast
    have "\<exists>npp ncpp. o2abs_rosen19 ''not_a_model'' ll pdrykpa vx ekpa frq = Inr (npp, ncpp)"
      by (simp only: o2abs_rosen19_def Let_def and_then_def v s c sum.case) blast
    with False show ?thesis by simp
  qed
  show "h2o_rosen19_sd ''not_a_model'' hl dcerror pdrykpa vx ekpa frq
        = (if ekpa * 10 / (0.01 * 8.31451 / 18.01528 * (300 / vx)) = 0 then Inr None
           else Inl UnboundLocalError)"
    by (simp add: h2o_rosen19_sd_def Let_def as_number_def h2o_summ_unknown)
qed

subsection \<open>Water vapour absorption and the vapour density\<close>

lemma h2o_summ_rose19:
  "h2o_summ ''rose19'' hl dcerror pda pvap ti f =
     Some (line_loop (h2o_term_shift pda pvap ti (ln ti) (exp (2.5 * ln ti)) f) 0 (h_lines hl) 0)"
  by (simp add: h2o_summ_def)

text \<open>The bare \<^verbatim>\<open>return\<close> is taken exactly when the vapour density is zero.\<close>

lemma h2o_rosen19_sd_none_iff:
  "h2o_rosen19_sd model hl dcerror pdrykpa vx ekpa frq = Inr None
   \<longleftrightarrow> ekpa * 10 / (0.01 * 8.31451 / 18.01528 * (300 / vx)) = 0"
proof (cases "ekpa * 10 / (0.01 * 8.31451 / 18.01528 * (300 / vx)) = 0")
  case True
  then show ?thesis
    by (simp only: h2o_rosen19_sd_def Let_def as_number_def) simp
next
  case False
  have "h2o_rosen19_sd model hl dcerror pdrykpa vx ekpa frq \<noteq> Inr None"
    using False
    by (simp only: h2o_rosen19_sd_def Let_def as_number_def) (simp split: option.split)
  with False show ?thesis by simp
qed

text \<open>
  C8. The claim has every call with a non-positive vapour density return \<^verbatim>\<open>None\<close>.
  With the model \<^verbatim>\<open>rose19\<close>, 100 kPa of dry air, the temperature ratio 1, the vapour
  pressure \<open>-1\<close> kPa and the frequency 22.235 GHz the vapour density is negative, and
  for every line table the function does not return \<^verbatim>\<open>None\<close>: it returns a pair of
  absorption terms.
\<close>

theorem h2o_rosen19_sd_negative_density_returns_pair:
  "h2o_rosen19_sd ''rose19'' hl dcerror 100 1 (- 1) 22.235 \<noteq> Inr None
   \<and> (\<exists>npp ncpp.
        h2o_rosen19_sd ''rose19'' hl dcerror 100 1 (- 1) 22.235 = Inr (Some (npp, ncpp)))"
proof
  show "h2o_rosen19_sd ''rose19'' hl dcerror 100 1 (- 1) 22.235 \<noteq> Inr None"
    by (simp add: h2o_rosen19_sd_none_iff)
  have "\<not> isl (h2o_rosen19_sd ''rose19'' hl dcerror 100 1 (- 1) 22.235)
        \<and> projr (h2o_rosen19_sd ''rose19'' hl dcerror 100 1 (- 1) 22.235) \<noteq> None"
    by (simp add: h2o_rosen19_sd_def Let_def as_number_def h2o_summ_rose19)
  then show "\<exists>npp ncpp.
        h2o_rosen19_sd ''rose19'' hl dcerror 100 1 (- 1) 22.235 = Inr (Some (npp, ncpp))"
    by (cases "h2o_rosen19_sd ''rose19'' hl dcerror 100 1 (- 1) 22.235") auto
qed

subsection \<open>Brightness temperature inverts the modified Planck radiance\<close>

text \<open>
  C10. For every \<open>hvk > 0\<close> and every radiance \<open>b > 0\<close>, the forward modified Planck
  radiance \<open>1 / (exp (hvk / T) - 1)\<close> at the brightness temperature
  \<open>T = bright_xxx hvk b\<close> is \<open>b\<close> again, over the real numbers.
\<close>

theorem bright_xxx_inverts_radiance:
  assumes "0 < hvk" and "0 < b"
  shows "1 / (exp (hvk / bright_xxx hvk b) - 1) = b"
proof -
  have pos: "1 < 1 + 1 / b"
    using assms(2) by simp
  then have lpos: "0 < ln (1 + 1 / b)"
    by (rule ln_gt_zero)
  have "hvk / bright_xxx hvk b = ln (1 + 1 / b)"
    using assms(1) lpos by (simp add: bright_xxx_def)
  moreover have "exp (ln (1 + 1 / b)) = 1 + 1 / b"
    using pos by (intro exp_ln) linarith
  ultimately have "exp (hvk / bright_xxx hvk b) - 1 = 1 / b"
    by simp
  then show ?thesis
    by simp
qed

theorem bright_xxx_inverts_radiance_witness:
  "1 / (exp (1 / bright_xxx 1 1) - 1) = (1::real)"
  using bright_xxx_inverts_radiance [of 1 1] by simp

end
